theory Spec2Isabelle
  imports Complex_Main
begin

section \<open>Python strings\<close>

text \<open>
  A Python \<open>str\<close> is modelled as a list of 8-bit characters, each read as the code point
  of the same number (U+0000 to U+00FF). On these code points \<open>str.lower\<close> works
  character by character: the letters A-Z and the Latin-1 capitals U+00C0 to U+00DE
  (the multiplication sign U+00D7 apart) move up by 32, everything else stays.
\<close>

definition lower_char :: "char \<Rightarrow> char" where
  "lower_char c =
     (let n = (of_char c :: nat)
      in if (65 \<le> n \<and> n \<le> 90) \<or> (192 \<le> n \<and> n \<le> 222 \<and> n \<noteq> 215)
         then char_of (n + 32) else c)"

definition lower :: "string \<Rightarrow> string" where
  "lower s = map lower_char s"

text \<open>\<open>str.isspace\<close> on one code point below 256.\<close>

definition isspace :: "char \<Rightarrow> bool" where
  "isspace c =
     (let n = (of_char c :: nat)
      in (9 \<le> n \<and> n \<le> 13) \<or> (28 \<le> n \<and> n \<le> 32) \<or> n = 133 \<or> n = 160)"

text \<open>\<open>s.rstrip(chars)\<close> drops the longest suffix made of characters of \<open>chars\<close>.\<close>

fun rstrip_chars :: "string \<Rightarrow> string \<Rightarrow> string" where
  "rstrip_chars chars [] = []"
| "rstrip_chars chars (c # cs) =
     (let r = rstrip_chars chars cs
      in if r = [] \<and> c \<in> set chars then [] else c # r)"

text \<open>\<open>s.strip()\<close> drops leading and trailing whitespace.\<close>

fun lstrip :: "string \<Rightarrow> string" where
  "lstrip [] = []"
| "lstrip (c # cs) = (if isspace c then lstrip cs else c # cs)"

fun rstrip :: "string \<Rightarrow> string" where
  "rstrip [] = []"
| "rstrip (c # cs) =
     (let r = rstrip cs
      in if r = [] \<and> isspace c then [] else c # r)"

definition strip :: "string \<Rightarrow> string" where
  "strip s = rstrip (lstrip s)"

text \<open>\<open>s.startswith(p)\<close>.\<close>

fun startswith :: "string \<Rightarrow> string \<Rightarrow> bool" where
  "startswith s [] = True"
| "startswith [] (p # ps) = False"
| "startswith (c # cs) (p # ps) = (c = p \<and> startswith cs ps)"

text \<open>\<open>sub in s\<close>: the substring test, trying every start position from the left.\<close>

fun contains :: "string \<Rightarrow> string \<Rightarrow> bool" where
  "contains sub [] = (sub = [])"
| "contains sub (c # cs) = (startswith (c # cs) sub \<or> contains sub cs)"

section \<open>Exceptions\<close>

datatype exc_class =
  ValueError | TypeError | KeyError | StoreError | ModelError | JSONDecodeError

text \<open>An exception: its class and its message \<open>str(e)\<close>.\<close>

datatype py_error = Raise exc_class string

section \<open>Limit enforcement\<close>

definition aggregate_keywords :: "string list" where
  "aggregate_keywords = [''sum('', ''count('', ''avg('', ''min('', ''max('']"

definition enforce_limit :: "string \<Rightarrow> string" where
  "enforce_limit sql =
     (let sql_l = lower sql
      in if contains ''limit'' sql_l then sql
         else
           let has_aggregate = list_ex (\<lambda>k. contains k sql_l) aggregate_keywords;
               has_group_by = contains ''group by'' sql_l;
               has_from = contains ''from'' sql_l
           in if has_from \<and> (has_group_by \<or> \<not> has_aggregate)
              then rstrip_chars '';'' sql @ '' LIMIT 50;''
              else sql)"

text \<open>
  The rule as the specification words it, with the five aggregate substrings spelled out
  one by one.
\<close>

definition enforce_limit_spec :: "string \<Rightarrow> string" where
  "enforce_limit_spec sql =
     (if contains ''limit'' (lower sql) then sql
      else if contains ''from'' (lower sql) \<and>
              (contains ''group by'' (lower sql) \<or>
               (\<not> contains ''sum('' (lower sql) \<and> \<not> contains ''count('' (lower sql) \<and>
                \<not> contains ''avg('' (lower sql) \<and> \<not> contains ''min('' (lower sql) \<and>
                \<not> contains ''max('' (lower sql)))
           then rstrip_chars '';'' sql @ '' LIMIT 50;''
           else sql)"

section \<open>SQL validation\<close>

definition FORBIDDEN_SQL :: "string list" where
  "FORBIDDEN_SQL = [''insert'', ''update'', ''delete'', ''drop'', ''alter'', ''truncate'',
                    ''create'', ''grant'', ''revoke'']"

text \<open>
  The loop over the forbidden keywords: the first keyword found in the lower-cased text
  raises, an exhausted list falls through.
\<close>

fun forbidden_scan :: "string list \<Rightarrow> string \<Rightarrow> py_error + unit" where
  "forbidden_scan [] sql_lower = Inr ()"
| "forbidden_scan (forbidden # rest) sql_lower =
     (if contains forbidden sql_lower
      then Inl (Raise ValueError (''Unsafe SQL operation: '' @ forbidden))
      else forbidden_scan rest sql_lower)"

text \<open>The argument is \<open>None\<close> or a string; \<open>not sql\<close> holds for both \<open>None\<close> and \<open>""\<close>.\<close>

definition validate_sql :: "string option \<Rightarrow> py_error + string" where
  "validate_sql sql_opt =
     (case sql_opt of
        None \<Rightarrow> Inl (Raise ValueError ''Empty SQL query'')
      | Some sql \<Rightarrow>
          if sql = [] then Inl (Raise ValueError ''Empty SQL query'')
          else
            let sql_lower = lower sql
            in (case forbidden_scan FORBIDDEN_SQL sql_lower of
                  Inl e \<Rightarrow> Inl e
                | Inr _ \<Rightarrow>
                    if \<not> startswith (strip sql_lower) ''select''
                    then Inl (Raise ValueError ''Only SELECT queries allowed'')
                    else Inr sql))"

section \<open>Result tables\<close>

text \<open>
  A cell of a result table is null, a number or text. Numbers are rationals; the model
  has no rounding, no infinities and no distinction between \<open>10\<close> and \<open>10.0\<close>.
\<close>

datatype cell = CNull | CNum rat | CText string

text \<open>
  A DataFrame column carries its dtype: \<open>object\<close> columns hold arbitrary cells, numeric
  columns hold numbers, with \<open>None\<close> for NaN. A DataFrame is the list of its named columns,
  in order.
\<close>

datatype column = ObjectCol "cell list" | NumericCol "rat option list"

type_synonym dataframe = "(string \<times> column) list"

fun col_len :: "column \<Rightarrow> nat" where
  "col_len (ObjectCol vs) = length vs"
| "col_len (NumericCol ns) = length ns"

definition nrows :: "dataframe \<Rightarrow> nat" where
  "nrows df = (case df of [] \<Rightarrow> 0 | (cname, col) # rest \<Rightarrow> col_len col)"

text \<open>\<open>df.empty\<close>: some axis has length zero (no columns, or no rows).\<close>

definition df_empty :: "dataframe \<Rightarrow> bool" where
  "df_empty df = (length df = 0 \<or> nrows df = 0)"

text \<open>
  \<open>pd.to_numeric(series, errors='coerce')\<close> works value by value and puts NaN where a
  value does not convert. The conversion of one value is pandas' own and is a parameter
  here: \<open>parse v\<close> is the number \<open>v\<close> converts to, \<open>None\<close> for NaN.
\<close>

definition to_numeric :: "(cell \<Rightarrow> rat option) \<Rightarrow> cell list \<Rightarrow> py_error + rat option list" where
  "to_numeric parse vs = Inr (map parse vs)"

text \<open>\<open>converted.isna().all()\<close>.\<close>

definition isna_all :: "rat option list \<Rightarrow> bool" where
  "isna_all ns = list_all (\<lambda>n. n = None) ns"

text \<open>One round of the loop of \<open>force_numeric\<close>; a raising conversion leaves the column.\<close>

fun force_numeric_col :: "(cell \<Rightarrow> rat option) \<Rightarrow> column \<Rightarrow> column" where
  "force_numeric_col parse (ObjectCol vs) =
     (case to_numeric parse vs of
        Inl e \<Rightarrow> ObjectCol vs
      | Inr converted \<Rightarrow> if \<not> isna_all converted then NumericCol converted else ObjectCol vs)"
| "force_numeric_col parse (NumericCol ns) = NumericCol ns"

fun force_numeric :: "(cell \<Rightarrow> rat option) \<Rightarrow> dataframe \<Rightarrow> dataframe" where
  "force_numeric parse [] = []"
| "force_numeric parse ((cname, col) # rest) =
     (cname, force_numeric_col parse col) # force_numeric parse rest"

section \<open>The relational store\<close>

text \<open>
  The store is seen through the two things the code asks of it: the outcome of the
  catalog query (connect, execute, fetch all rows; each row a dictionary from field name
  to text), and the outcome of running an SQL text, as the DataFrame built from the rows.
\<close>

type_synonym row = "(string \<times> string) list"

record store =
  metadata :: "py_error + row list"
  run_query :: "string \<Rightarrow> py_error + dataframe"

definition fetch_df :: "(cell \<Rightarrow> rat option) \<Rightarrow> store \<Rightarrow> string \<Rightarrow> py_error + dataframe" where
  "fetch_df parse st sql =
     (case run_query st sql of
        Inl e \<Rightarrow> Inl e
      | Inr df \<Rightarrow> if df_empty df then Inr df else Inr (force_numeric parse df))"

section \<open>Schema introspection\<close>

record column_info =
  ci_name :: string
  ci_type :: string
  ci_full_type :: string

record table_info =
  columns :: "column_info list"
  sample_data :: "(string \<times> cell) list list option"
  row_count :: int

text \<open>The schema dictionary, in insertion order.\<close>

type_synonym schema = "(string \<times> table_info) list"

text \<open>\<open>row[key]\<close> raises \<open>KeyError\<close> on a missing key.\<close>

definition getitem :: "row \<Rightarrow> string \<Rightarrow> py_error + string" where
  "getitem r key = (case map_of r key of None \<Rightarrow> Inl (Raise KeyError key) | Some v \<Rightarrow> Inr v)"

fun append_column :: "schema \<Rightarrow> string \<Rightarrow> column_info \<Rightarrow> schema" where
  "append_column [] table ci = []"
| "append_column ((t, info) # rest) table ci =
     (if t = table then (t, info\<lparr>columns := columns info @ [ci]\<rparr>) # rest
      else (t, info) # append_column rest table ci)"

text \<open>The first loop of \<open>get_schema_detailed\<close>, over the rows of the catalog query.\<close>

fun build_schema :: "schema \<Rightarrow> row list \<Rightarrow> py_error + schema" where
  "build_schema schema [] = Inr schema"
| "build_schema schema (r # rest) =
     (case getitem r ''table_name'' of
        Inl e \<Rightarrow> Inl e
      | Inr table \<Rightarrow>
          (let schema1 =
                 (if table \<notin> set (map fst schema)
                  then schema @ [(table, \<lparr>columns = [], sample_data = None, row_count = 0\<rparr>)]
                  else schema)
           in (case getitem r ''column_name'' of
                 Inl e \<Rightarrow> Inl e
               | Inr cn \<Rightarrow>
                   (case getitem r ''data_type'' of
                      Inl e \<Rightarrow> Inl e
                    | Inr dt \<Rightarrow>
                        (case getitem r ''column_type'' of
                           Inl e \<Rightarrow> Inl e
                         | Inr ct \<Rightarrow>
                             build_schema
                               (append_column schema1 table
                                  \<lparr>ci_name = cn, ci_type = dt, ci_full_type = ct\<rparr>)
                               rest)))))"

text \<open>
  \<open>int(count_df.iloc[0]['count'])\<close>: the first value of the column \<open>count\<close>, truncated
  towards zero. \<open>int\<close> of a text is Python's own parser and is a parameter.
\<close>

definition py_int_rat :: "rat \<Rightarrow> int" where
  "py_int_rat r = (if 0 \<le> r then \<lfloor>r\<rfloor> else \<lceil>r\<rceil>)"

fun first_count :: "(string \<Rightarrow> py_error + int) \<Rightarrow> column \<Rightarrow> py_error + int" where
  "first_count int_of_str (NumericCol (Some r # ns)) = Inr (py_int_rat r)"
| "first_count int_of_str (NumericCol (None # ns)) =
     Inl (Raise ValueError ''cannot convert float NaN to integer'')"
| "first_count int_of_str (NumericCol []) = Inl (Raise KeyError ''0'')"
| "first_count int_of_str (ObjectCol (CNum r # vs)) = Inr (py_int_rat r)"
| "first_count int_of_str (ObjectCol (CText s # vs)) = int_of_str s"
| "first_count int_of_str (ObjectCol (CNull # vs)) =
     Inl (Raise TypeError ''int() argument must be a string or a number'')"
| "first_count int_of_str (ObjectCol []) = Inl (Raise KeyError ''0'')"

definition count_of :: "(string \<Rightarrow> py_error + int) \<Rightarrow> dataframe \<Rightarrow> py_error + int" where
  "count_of int_of_str df =
     (case map_of df ''count'' of
        None \<Rightarrow> Inl (Raise KeyError ''count'')
      | Some col \<Rightarrow> first_count int_of_str col)"

text \<open>\<open>df.to_dict('records')\<close>: one dictionary per row.\<close>

fun cell_at :: "column \<Rightarrow> nat \<Rightarrow> cell" where
  "cell_at (ObjectCol vs) i = (if i < length vs then vs ! i else CNull)"
| "cell_at (NumericCol ns) i =
     (if i < length ns then (case ns ! i of None \<Rightarrow> CNull | Some r \<Rightarrow> CNum r) else CNull)"

definition to_records :: "dataframe \<Rightarrow> (string \<times> cell) list list" where
  "to_records df = map (\<lambda>i. map (\<lambda>(cname, col). (cname, cell_at col i)) df) [0..<nrows df]"

text \<open>
  The body of the second loop for one table. Its \<open>try\<close> covers both queries, and what was
  assigned before an exception stays assigned.
\<close>

definition table_stats ::
  "(cell \<Rightarrow> rat option) \<Rightarrow> (string \<Rightarrow> py_error + int) \<Rightarrow> store \<Rightarrow> string \<Rightarrow> table_info \<Rightarrow> table_info"
where
  "table_stats parse int_of_str st table info =
     (case fetch_df parse st (''SELECT COUNT(*) as count FROM '' @ table) of
        Inl e \<Rightarrow> info
      | Inr count_df \<Rightarrow>
          (case (if \<not> df_empty count_df
                 then (case count_of int_of_str count_df of
                         Inl e \<Rightarrow> Inl e
                       | Inr n \<Rightarrow> Inr (info\<lparr>row_count := n\<rparr>))
                 else Inr info) of
             Inl e \<Rightarrow> info
           | Inr info1 \<Rightarrow>
               (case fetch_df parse st (''SELECT * FROM '' @ table @ '' LIMIT 3'') of
                  Inl e \<Rightarrow> info1
                | Inr sample_df \<Rightarrow>
                    if \<not> df_empty sample_df
                    then info1\<lparr>sample_data := Some (to_records sample_df)\<rparr>
                    else info1)))"

text \<open>
  The statements inside the outer \<open>try\<close> of \<open>get_schema_detailed\<close>, with the exceptions
  they can raise.
\<close>

definition schema_body ::
  "(cell \<Rightarrow> rat option) \<Rightarrow> (string \<Rightarrow> py_error + int) \<Rightarrow> store \<Rightarrow> py_error + schema"
where
  "schema_body parse int_of_str st =
     (case metadata st of
        Inl e \<Rightarrow> Inl e
      | Inr result \<Rightarrow>
          (case build_schema [] result of
             Inl e \<Rightarrow> Inl e
           | Inr schema \<Rightarrow>
               Inr (map (\<lambda>(table, info). (table, table_stats parse int_of_str st table info))
                      schema)))"

text \<open>The handler \<open>except Exception\<close> prints the error and returns the empty dictionary.\<close>

definition get_schema_detailed ::
  "(cell \<Rightarrow> rat option) \<Rightarrow> (string \<Rightarrow> py_error + int) \<Rightarrow> store \<Rightarrow> py_error + schema"
where
  "get_schema_detailed parse int_of_str st =
     (case schema_body parse int_of_str st of
        Inl e \<Rightarrow> Inr []
      | Inr schema \<Rightarrow> Inr schema)"

section \<open>The text-generation service\<close>

text \<open>
  The service is a state: how many calls it has received, and what the call number \<open>n\<close>
  answers to a prompt and a generation configuration (temperature and output-token
  budget, when given): the text of the response, or the exception of the call or of
  reading \<open>response.text\<close>.
\<close>

type_synonym gen_config = "(rat \<times> nat) option"

record model =
  reply :: "nat \<Rightarrow> string \<Rightarrow> gen_config \<Rightarrow> py_error + string"
  ncalls :: nat

definition generate_content :: "model \<Rightarrow> string \<Rightarrow> gen_config \<Rightarrow> (py_error + string) \<times> model" where
  "generate_content m prompt cfg = (reply m (ncalls m) prompt cfg, m\<lparr>ncalls := Suc (ncalls m)\<rparr>)"

definition str_exc :: "py_error \<Rightarrow> string" where
  "str_exc e = (case e of Raise cls msg \<Rightarrow> msg)"

section \<open>Insights\<close>

text \<open>
  The prompt is assembled from pandas renderings of the table (its preview, its
  statistics); the assembling function is a parameter.
\<close>

definition generate_insights ::
  "(dataframe \<Rightarrow> string \<Rightarrow> string \<Rightarrow> string) \<Rightarrow> model \<Rightarrow> dataframe \<Rightarrow> string \<Rightarrow> string \<Rightarrow> string \<times> model"
where
  "generate_insights insights_prompt m df question sql =
     (if df_empty df then (''No data found for this query.'', m)
      else
        (case generate_content m (insights_prompt df question sql) (Some (3 / 10, 800)) of
           (Inr text, m') \<Rightarrow> (strip text, m')
         | (Inl e, m') \<Rightarrow> (''Analysis Error: '' @ str_exc e, m')))"

section \<open>Chart specification\<close>

datatype json =
  JNull | JBool bool | JNumber rat | JString string | JArray "json list"
  | JObject "(string \<times> json) list"

text \<open>
  \<open>re.sub(r"```json|```", "", raw, flags=re.IGNORECASE)\<close>: from the left, a fence followed
  by \<open>json\<close> in any case is removed whole, a bare fence otherwise.
\<close>

fun remove_fences :: "string \<Rightarrow> string" where
  "remove_fences [] = []"
| "remove_fences (c # cs) =
     (if startswith (lower (c # cs)) ''```json'' then remove_fences (drop 6 cs)
      else if startswith (c # cs) ''```'' then remove_fences (drop 2 cs)
      else c # remove_fences cs)"

text \<open>\<open>json.loads\<close> and the assembling of the prompt are parameters.\<close>

definition generate_chart_spec ::
  "(dataframe \<Rightarrow> string \<Rightarrow> string) \<Rightarrow> (string \<Rightarrow> py_error + json) \<Rightarrow> model \<Rightarrow> dataframe \<Rightarrow> string \<Rightarrow> json \<times> model"
where
  "generate_chart_spec chart_prompt json_loads m df question =
     (case generate_content m (chart_prompt df question) None of
        (Inr text, m') \<Rightarrow>
          (let raw = strip (remove_fences (strip text))
           in (case json_loads raw of
                 Inr spec \<Rightarrow> (spec, m')
               | Inl e \<Rightarrow>
                   (JObject [(''chart'', JString ''table''), (''x'', JNull), (''y'', JNull),
                             (''title'', JString ''Data Preview'')], m')))
      | (Inl e, m') \<Rightarrow>
          (JObject [(''chart'', JString ''table''), (''x'', JNull), (''y'', JNull),
                    (''title'', JString ''Data Preview'')], m'))"

section \<open>Example inputs\<close>

text \<open>Stores, services and library functions at which the theorems below are run.\<close>

definition example_parse :: "cell \<Rightarrow> rat option" where
  "example_parse v =
     (case v of
        CNull \<Rightarrow> None
      | CNum r \<Rightarrow> Some r
      | CText s \<Rightarrow>
          if s = ''10'' then Some 10 else if s = ''20'' then Some 20
          else if s = ''30'' then Some 30 else None)"

definition example_int_of_str :: "string \<Rightarrow> py_error + int" where
  "example_int_of_str s =
     (if s = ''2'' then Inr 2 else Inl (Raise ValueError ''invalid literal for int()''))"

definition unreachable_store :: store where
  "unreachable_store =
     \<lparr>metadata = Inl (Raise StoreError ''connection refused''),
      run_query = (\<lambda>sql. Inl (Raise StoreError ''connection refused''))\<rparr>"

definition no_tables_store :: store where
  "no_tables_store =
     \<lparr>metadata = Inr [],
      run_query = (\<lambda>sql. Inl (Raise StoreError ''no such table''))\<rparr>"

definition pnl_store :: store where
  "pnl_store =
     \<lparr>metadata = Inr [[(''table_name'', ''pnl''), (''column_name'', ''Revenue''),
                       (''data_type'', ''int''), (''column_type'', ''int(11)'')]],
      run_query = (\<lambda>sql.
        if sql = ''SELECT COUNT(*) as count FROM pnl'' then Inr [(''count'', NumericCol [Some 2])]
        else Inl (Raise StoreError ''query failed''))\<rparr>"

definition failing_model :: model where
  "failing_model = \<lparr>reply = (\<lambda>n prompt cfg. Inl (Raise ModelError ''service unavailable'')), ncalls = 0\<rparr>"

definition prose_model :: model where
  "prose_model = \<lparr>reply = (\<lambda>n prompt cfg. Inr '' A bar chart would suit this. ''), ncalls = 0\<rparr>"

definition example_json_loads :: "string \<Rightarrow> py_error + json" where
  "example_json_loads s =
     (if s = ''null'' then Inr JNull else Inl (Raise JSONDecodeError ''Expecting value''))"

definition example_chart_prompt :: "dataframe \<Rightarrow> string \<Rightarrow> string" where
  "example_chart_prompt df question = ''User question: '' @ question"

definition example_insights_prompt :: "dataframe \<Rightarrow> string \<Rightarrow> string \<Rightarrow> string" where
  "example_insights_prompt df question sql = ''USER QUESTION: '' @ question @ '' SQL QUERY: '' @ sql"

section \<open>Facts about the string operations\<close>

lemma startswith_iff: "startswith s p \<longleftrightarrow> (\<exists>r. s = p @ r)"
  by (induction s p rule: startswith.induct) auto

text \<open>\<open>contains\<close> is the substring relation.\<close>

lemma contains_iff: "contains sub s \<longleftrightarrow> (\<exists>ps ss. s = ps @ sub @ ss)"
proof (induction s)
  case Nil
  then show ?case by auto
next
  case (Cons c cs)
  show ?case
  proof
    assume "contains sub (c # cs)"
    then consider "startswith (c # cs) sub" | "contains sub cs" by auto
    then show "\<exists>ps ss. c # cs = ps @ sub @ ss"
    proof cases
      case 1
      then obtain r where "c # cs = sub @ r" by (auto simp: startswith_iff)
      then have "c # cs = [] @ sub @ r" by simp
      then show ?thesis by blast
    next
      case 2
      then obtain ps ss where "cs = ps @ sub @ ss" using Cons.IH by auto
      then have "c # cs = (c # ps) @ sub @ ss" by simp
      then show ?thesis by blast
    qed
  next
    assume "\<exists>ps ss. c # cs = ps @ sub @ ss"
    then obtain ps ss where eq: "c # cs = ps @ sub @ ss" by blast
    show "contains sub (c # cs)"
    proof (cases ps)
      case Nil
      with eq have "startswith (c # cs) sub" by (auto simp: startswith_iff)
      then show ?thesis by simp
    next
      case (Cons p ps')
      with eq have "cs = ps' @ sub @ ss" by simp
      then have "contains sub cs" using Cons.IH by blast
      then show ?thesis by simp
    qed
  qed
qed

lemma contains_appendI: "contains sub ys \<Longrightarrow> contains sub (xs @ ys)"
  by (induction xs) auto

lemma lower_append: "lower (a @ b) = lower a @ lower b"
  by (simp add: lower_def)

lemma lower_limit_suffix: "lower '' LIMIT 50;'' = '' limit 50;''"
  by code_simp

lemma appended_has_limit: "contains ''limit'' (lower (t @ '' LIMIT 50;''))"
proof -
  have "contains ''limit'' '' limit 50;''" by simp
  then show ?thesis
    by (simp only: lower_append lower_limit_suffix contains_appendI)
qed

text \<open>What \<open>rstrip\<close> with a character set returns: a prefix, with only such characters cut.\<close>

lemma rstrip_chars_prefix:
  "\<exists>t. s = rstrip_chars chars s @ t \<and> set t \<subseteq> set chars"
proof (induction s)
  case Nil
  then show ?case by simp
next
  case (Cons c cs)
  then obtain t where t: "cs = rstrip_chars chars cs @ t" "set t \<subseteq> set chars" by blast
  show ?case
  proof (cases "rstrip_chars chars cs = [] \<and> c \<in> set chars")
    case True
    with t have "c # cs = rstrip_chars chars (c # cs) @ (c # t)" "set (c # t) \<subseteq> set chars"
      by (auto simp: Let_def)
    then show ?thesis by blast
  next
    case False
    with t have "c # cs = rstrip_chars chars (c # cs) @ t"
      by (auto simp: Let_def)
    with t(2) show ?thesis by blast
  qed
qed

lemma rstrip_chars_last:
  "rstrip_chars chars s \<noteq> [] \<Longrightarrow> last (rstrip_chars chars s) \<notin> set chars"
  by (induction s) (auto simp: Let_def split: if_splits)

section \<open>Limit enforcement\<close>

lemma enforce_limit_unchanged_if_limit:
  "contains ''limit'' (lower s) \<Longrightarrow> enforce_limit s = s"
  by (simp add: enforce_limit_def)

lemma enforce_limit_cases:
  "enforce_limit s = s \<or> enforce_limit s = rstrip_chars '';'' s @ '' LIMIT 50;''"
  by (simp add: enforce_limit_def Let_def)

text \<open>
  C3. \<open>enforce_limit\<close> computes, on every string, what the rule of the specification
  says: unchanged when the lower-cased text contains \<open>limit\<close>; otherwise, with \<open>from\<close> and
  either \<open>group by\<close> or none of the five aggregate substrings, the text without its
  trailing semicolons followed by \<open> LIMIT 50;\<close>; otherwise unchanged.
\<close>

theorem enforce_limit_meets_spec: "enforce_limit sql = enforce_limit_spec sql"
  by (simp add: enforce_limit_def enforce_limit_spec_def aggregate_keywords_def Let_def)

theorem enforce_limit_meets_spec_witness:
  "enforce_limit ''select a from t limit 5'' = ''select a from t limit 5'' \<and>
   enforce_limit ''SELECT a FROM t;;'' = ''SELECT a FROM t LIMIT 50;'' \<and>
   enforce_limit ''SELECT SUM(a) FROM t'' = ''SELECT SUM(a) FROM t'' \<and>
   enforce_limit_spec ''SELECT SUM(a) FROM t'' = ''SELECT SUM(a) FROM t''"
proof -
  have a: "enforce_limit_spec ''select a from t limit 5'' = ''select a from t limit 5''"
    by code_simp
  have b: "enforce_limit_spec ''SELECT a FROM t;;'' = ''SELECT a FROM t LIMIT 50;''"
    by code_simp
  have c: "enforce_limit_spec ''SELECT SUM(a) FROM t'' = ''SELECT SUM(a) FROM t''"
    by code_simp
  show ?thesis
    using a b c
      enforce_limit_meets_spec [of "''select a from t limit 5''"]
      enforce_limit_meets_spec [of "''SELECT a FROM t;;''"]
      enforce_limit_meets_spec [of "''SELECT SUM(a) FROM t''"]
    by simp
qed

text \<open>
  C4. \<open>enforce_limit\<close> is idempotent: a second application returns the result of the
  first.
\<close>

theorem enforce_limit_idempotent: "enforce_limit (enforce_limit s) = enforce_limit s"
  using enforce_limit_cases [of s]
proof
  assume "enforce_limit s = s"
  then show ?thesis by simp
next
  assume e: "enforce_limit s = rstrip_chars '';'' s @ '' LIMIT 50;''"
  show ?thesis
    unfolding e by (rule enforce_limit_unchanged_if_limit) (rule appended_has_limit)
qed

theorem enforce_limit_idempotent_witness:
  "enforce_limit (enforce_limit ''SELECT a FROM t;'') = ''SELECT a FROM t LIMIT 50;''"
proof -
  have "enforce_limit ''SELECT a FROM t;'' = ''SELECT a FROM t LIMIT 50;''"
    by code_simp
  then show ?thesis
    using enforce_limit_idempotent [of "''SELECT a FROM t;''"] by simp
qed

text \<open>
  C5, as the claim states it, fails: a text with \<open>group by\<close> and without \<open>limit\<close> that has
  no \<open>from\<close> is returned as it came.
\<close>

theorem group_by_without_from_counterexample:
  "contains ''group by'' (lower ''SELECT 1 GROUP BY 1'') \<and>
   \<not> contains ''limit'' (lower ''SELECT 1 GROUP BY 1'') \<and>
   enforce_limit ''SELECT 1 GROUP BY 1'' = ''SELECT 1 GROUP BY 1'' \<and>
   enforce_limit ''SELECT 1 GROUP BY 1'' \<noteq> ''SELECT 1 GROUP BY 1 LIMIT 50;''"
  by code_simp

text \<open>
  C5, amended: a text whose lower-cased form contains \<open>group by\<close> and \<open>from\<close> and does not
  contain \<open>limit\<close> comes back without its trailing semicolons and with \<open> LIMIT 50;\<close>
  appended, whether or not an aggregate substring occurs in it.
\<close>

theorem group_by_gains_limit:
  assumes "contains ''group by'' (lower s)"
    and "contains ''from'' (lower s)"
    and "\<not> contains ''limit'' (lower s)"
  shows "enforce_limit s = rstrip_chars '';'' s @ '' LIMIT 50;''"
  using assms by (simp add: enforce_limit_def Let_def)

theorem group_by_gains_limit_witness:
  "contains ''group by'' (lower ''SELECT a, SUM(b) FROM t GROUP BY a;'') \<and>
   contains ''from'' (lower ''SELECT a, SUM(b) FROM t GROUP BY a;'') \<and>
   \<not> contains ''limit'' (lower ''SELECT a, SUM(b) FROM t GROUP BY a;'') \<and>
   enforce_limit ''SELECT a, SUM(b) FROM t GROUP BY a;'' =
     ''SELECT a, SUM(b) FROM t GROUP BY a LIMIT 50;''"
proof -
  have g: "contains ''group by'' (lower ''SELECT a, SUM(b) FROM t GROUP BY a;'')"
    by code_simp
  have f: "contains ''from'' (lower ''SELECT a, SUM(b) FROM t GROUP BY a;'')"
    by code_simp
  have l: "\<not> contains ''limit'' (lower ''SELECT a, SUM(b) FROM t GROUP BY a;'')"
    by code_simp
  have r: "rstrip_chars '';'' ''SELECT a, SUM(b) FROM t GROUP BY a;'' =
             ''SELECT a, SUM(b) FROM t GROUP BY a''"
    by code_simp
  show ?thesis
    using g f l r group_by_gains_limit [OF g f l] by simp
qed

section \<open>SQL validation\<close>

lemma forbidden_scan_find:
  "forbidden_scan ks t =
     (case find (\<lambda>k. contains k t) ks of
        None \<Rightarrow> Inr ()
      | Some k \<Rightarrow> Inl (Raise ValueError (''Unsafe SQL operation: '' @ k)))"
  by (induction ks) auto

lemma forbidden_scan_clean:
  "(\<forall>k\<in>set ks. \<not> contains k t) \<Longrightarrow> forbidden_scan ks t = Inr ()"
  by (induction ks) auto

lemma forbidden_scan_hit:
  "k \<in> set ks \<Longrightarrow> contains k t \<Longrightarrow>
   \<exists>k'\<in>set ks. contains k' t \<and>
     forbidden_scan ks t = Inl (Raise ValueError (''Unsafe SQL operation: '' @ k'))"
  by (induction ks) auto

lemma forbidden_nonempty: "k \<in> set FORBIDDEN_SQL \<Longrightarrow> k \<noteq> []"
  by (auto simp: FORBIDDEN_SQL_def)

lemma contains_nonempty: "contains k t \<Longrightarrow> k \<noteq> [] \<Longrightarrow> t \<noteq> []"
  by (cases t) auto

lemma lower_nonempty: "lower s \<noteq> [] \<Longrightarrow> s \<noteq> []"
  by (auto simp: lower_def)

text \<open>
  C1. A text whose lower-cased form contains a forbidden keyword as a substring is
  rejected with the unsafe-operation error, and the keyword the message names is a
  forbidden keyword that occurs in the text.
\<close>

theorem validate_sql_rejects_forbidden:
  assumes "k \<in> set FORBIDDEN_SQL" and "contains k (lower s)"
  shows "\<exists>k'\<in>set FORBIDDEN_SQL. contains k' (lower s) \<and>
           validate_sql (Some s) = Inl (Raise ValueError (''Unsafe SQL operation: '' @ k'))"
proof -
  have "s \<noteq> []"
    using assms forbidden_nonempty contains_nonempty lower_nonempty by blast
  moreover obtain k' where "k' \<in> set FORBIDDEN_SQL" "contains k' (lower s)"
    "forbidden_scan FORBIDDEN_SQL (lower s) = Inl (Raise ValueError (''Unsafe SQL operation: '' @ k'))"
    using forbidden_scan_hit [OF assms] by blast
  ultimately show ?thesis
    by (auto simp: validate_sql_def Let_def)
qed

theorem validate_sql_rejects_forbidden_witness:
  "''drop'' \<in> set FORBIDDEN_SQL \<and>
   contains ''drop'' (lower ''SELECT col FROM table_dropped'') \<and>
   (\<exists>k'\<in>set FORBIDDEN_SQL. contains k' (lower ''SELECT col FROM table_dropped'') \<and>
      validate_sql (Some ''SELECT col FROM table_dropped'') =
        Inl (Raise ValueError (''Unsafe SQL operation: '' @ k')))"
proof -
  have m: "''drop'' \<in> set FORBIDDEN_SQL"
    by (simp add: FORBIDDEN_SQL_def)
  have c: "contains ''drop'' (lower ''SELECT col FROM table_dropped'')"
    by code_simp
  show ?thesis
    using m c validate_sql_rejects_forbidden [OF m c] by blast
qed

text \<open>
  C2, as the claim states it, fails twice: a text that does not start with \<open>select\<close> and
  holds a forbidden keyword raises the unsafe-operation error, and the empty text raises
  the empty-query error.
\<close>

theorem not_select_other_errors_counterexample:
  "\<not> startswith (strip (lower ''DROP TABLE t'')) ''select'' \<and>
   validate_sql (Some ''DROP TABLE t'') = Inl (Raise ValueError ''Unsafe SQL operation: drop'') \<and>
   validate_sql (Some ''DROP TABLE t'') \<noteq> Inl (Raise ValueError ''Only SELECT queries allowed'') \<and>
   \<not> startswith (strip (lower '''')) ''select'' \<and>
   validate_sql (Some '''') = Inl (Raise ValueError ''Empty SQL query'')"
  by code_simp

text \<open>
  C2, amended: a non-empty text that holds no forbidden keyword and whose lower-cased,
  trimmed form does not start with \<open>select\<close> is rejected with the only-SELECT error.
\<close>

theorem validate_sql_not_select:
  assumes "s \<noteq> []"
    and "\<forall>k\<in>set FORBIDDEN_SQL. \<not> contains k (lower s)"
    and "\<not> startswith (strip (lower s)) ''select''"
  shows "validate_sql (Some s) = Inl (Raise ValueError ''Only SELECT queries allowed'')"
  using assms by (simp add: validate_sql_def Let_def forbidden_scan_clean)

theorem validate_sql_not_select_witness:
  "validate_sql (Some ''  SHOW TABLES'') = Inl (Raise ValueError ''Only SELECT queries allowed'')"
proof -
  have n: "''  SHOW TABLES'' \<noteq> []" by simp
  have f: "\<forall>k\<in>set FORBIDDEN_SQL. \<not> contains k (lower ''  SHOW TABLES'')"
    by code_simp
  have p: "\<not> startswith (strip (lower ''  SHOW TABLES'')) ''select''"
    by code_simp
  show ?thesis
    by (rule validate_sql_not_select [OF n f p])
qed

text \<open>
  C10. The checks of \<open>validate_sql\<close> run in a fixed order. An absent or empty text raises
  the empty-query error. Otherwise the first forbidden keyword, in the order of the list,
  that occurs in the lower-cased text raises the unsafe-operation error naming it,
  whatever the text starts with: \<open>DROP TABLE t\<close> raises it for \<open>drop\<close>. With no forbidden
  keyword the prefix decides: the only-SELECT error, or the text itself, unchanged.
\<close>

theorem validate_sql_precedence:
  "validate_sql None = Inl (Raise ValueError ''Empty SQL query'') \<and>
   validate_sql (Some []) = Inl (Raise ValueError ''Empty SQL query'') \<and>
   (s \<noteq> [] \<longrightarrow> find (\<lambda>k. contains k (lower s)) FORBIDDEN_SQL = Some k \<longrightarrow>
      validate_sql (Some s) = Inl (Raise ValueError (''Unsafe SQL operation: '' @ k))) \<and>
   (s \<noteq> [] \<longrightarrow> find (\<lambda>k. contains k (lower s)) FORBIDDEN_SQL = None \<longrightarrow>
      \<not> startswith (strip (lower s)) ''select'' \<longrightarrow>
      validate_sql (Some s) = Inl (Raise ValueError ''Only SELECT queries allowed'')) \<and>
   (s \<noteq> [] \<longrightarrow> find (\<lambda>k. contains k (lower s)) FORBIDDEN_SQL = None \<longrightarrow>
      startswith (strip (lower s)) ''select'' \<longrightarrow>
      validate_sql (Some s) = Inr s)"
  by (simp add: validate_sql_def Let_def forbidden_scan_find)

theorem validate_sql_precedence_witness:
  "\<not> startswith (strip (lower ''DROP TABLE t'')) ''select'' \<and>
   validate_sql (Some ''DROP TABLE t'') = Inl (Raise ValueError ''Unsafe SQL operation: drop'') \<and>
   validate_sql (Some ''delete from t; drop table t'') =
     Inl (Raise ValueError ''Unsafe SQL operation: delete'') \<and>
   validate_sql (Some ''SHOW TABLES'') = Inl (Raise ValueError ''Only SELECT queries allowed'') \<and>
   validate_sql (Some '' Select a FROM t'') = Inr '' Select a FROM t''"
proof -
  have d: "find (\<lambda>k. contains k (lower ''DROP TABLE t'')) FORBIDDEN_SQL = Some ''drop''"
    by code_simp
  have dd: "find (\<lambda>k. contains k (lower ''delete from t; drop table t'')) FORBIDDEN_SQL
              = Some ''delete''"
    by code_simp
  have s1: "find (\<lambda>k. contains k (lower ''SHOW TABLES'')) FORBIDDEN_SQL = None"
    by code_simp
  have s2: "\<not> startswith (strip (lower ''SHOW TABLES'')) ''select''"
    by code_simp
  have t1: "find (\<lambda>k. contains k (lower '' Select a FROM t'')) FORBIDDEN_SQL = None"
    by code_simp
  have t2: "startswith (strip (lower '' Select a FROM t'')) ''select''"
    by code_simp
  have n: "\<not> startswith (strip (lower ''DROP TABLE t'')) ''select''"
    by code_simp
  show ?thesis
    using d dd s1 s2 t1 t2 n
      validate_sql_precedence [of "''DROP TABLE t''" "''drop''"]
      validate_sql_precedence [of "''delete from t; drop table t''" "''delete''"]
      validate_sql_precedence [of "''SHOW TABLES''"]
      validate_sql_precedence [of "'' Select a FROM t''"]
    by simp
qed

section \<open>Numeric coercion\<close>

lemma isna_all_map: "isna_all (map parse vs) \<longleftrightarrow> \<not> (\<exists>v\<in>set vs. parse v \<noteq> None)"
  by (auto simp: isna_all_def list_all_iff)

lemma force_numeric_col_object:
  "force_numeric_col parse (ObjectCol vs) =
     (if \<exists>v\<in>set vs. parse v \<noteq> None then NumericCol (map parse vs) else ObjectCol vs)"
  by (simp add: to_numeric_def isna_all_map)

lemma force_numeric_length: "length (force_numeric parse df) = length df"
  by (induction parse df rule: force_numeric.induct) auto

lemma force_numeric_nth:
  "i < length df \<Longrightarrow>
   force_numeric parse df ! i = (fst (df ! i), force_numeric_col parse (snd (df ! i)))"
proof (induction parse df arbitrary: i rule: force_numeric.induct)
  case (1 parse)
  then show ?case by simp
next
  case (2 parse cname col rest)
  then show ?case by (cases i) auto
qed

text \<open>
  C7. In every table \<open>force_numeric\<close> keeps the number and the names of the columns, and
  an object-typed column becomes numeric exactly when one of its values parses: then each
  value is replaced by its number, or by null where it does not parse; a column none of
  whose values parses stays as it is. With a parser that reads \<open>10\<close>, \<open>20\<close>, \<open>30\<close> as these
  numbers the column of the three texts becomes the numeric column 10, 20, 30, and with a
  parser that rejects \<open>a\<close>, \<open>b\<close>, \<open>c\<close> the column of these texts is returned unchanged.
\<close>

theorem force_numeric_column_rule:
  "length (force_numeric parse df) = length df \<and>
   (i < length df \<longrightarrow> df ! i = (cname, ObjectCol vs) \<longrightarrow>
      force_numeric parse df ! i =
        (cname, if \<exists>v\<in>set vs. parse v \<noteq> None then NumericCol (map parse vs)
                else ObjectCol vs)) \<and>
   (i < length df \<longrightarrow> df ! i = (cname, NumericCol ns) \<longrightarrow>
      force_numeric parse df ! i = (cname, NumericCol ns)) \<and>
   (parse (CText ''10'') = Some 10 \<longrightarrow> parse (CText ''20'') = Some 20 \<longrightarrow>
    parse (CText ''30'') = Some 30 \<longrightarrow>
      force_numeric parse [(cname, ObjectCol [CText ''10'', CText ''20'', CText ''30''])] =
        [(cname, NumericCol [Some 10, Some 20, Some 30])]) \<and>
   (parse (CText ''a'') = None \<longrightarrow> parse (CText ''b'') = None \<longrightarrow>
    parse (CText ''c'') = None \<longrightarrow>
      force_numeric parse [(cname, ObjectCol [CText ''a'', CText ''b'', CText ''c''])] =
        [(cname, ObjectCol [CText ''a'', CText ''b'', CText ''c''])])"
proof -
  have 1: "length (force_numeric parse df) = length df"
    by (rule force_numeric_length)
  have 2: "force_numeric parse df ! i =
        (cname, if \<exists>v\<in>set vs. parse v \<noteq> None then NumericCol (map parse vs)
                else ObjectCol vs)"
    if "i < length df" "df ! i = (cname, ObjectCol vs)"
    using that by (simp only: force_numeric_nth force_numeric_col_object fst_conv snd_conv)
  have 3: "force_numeric parse df ! i = (cname, NumericCol ns)"
    if "i < length df" "df ! i = (cname, NumericCol ns)"
    using that by (simp add: force_numeric_nth)
  have 4: "force_numeric parse [(cname, ObjectCol [CText ''10'', CText ''20'', CText ''30''])] =
        [(cname, NumericCol [Some 10, Some 20, Some 30])]"
    if "parse (CText ''10'') = Some 10" "parse (CText ''20'') = Some 20"
       "parse (CText ''30'') = Some 30"
    using that by (simp add: to_numeric_def isna_all_def)
  have 5: "force_numeric parse [(cname, ObjectCol [CText ''a'', CText ''b'', CText ''c''])] =
        [(cname, ObjectCol [CText ''a'', CText ''b'', CText ''c''])]"
    if "parse (CText ''a'') = None" "parse (CText ''b'') = None" "parse (CText ''c'') = None"
    using that by (simp add: to_numeric_def isna_all_def)
  from 1 2 3 4 5 show ?thesis by blast
qed

theorem force_numeric_column_rule_witness:
  "force_numeric example_parse
     [(''amount'', ObjectCol [CText ''10'', CText ''20'', CText ''30''])] =
     [(''amount'', NumericCol [Some 10, Some 20, Some 30])] \<and>
   force_numeric example_parse
     [(''name'', ObjectCol [CText ''a'', CText ''b'', CText ''c''])] =
     [(''name'', ObjectCol [CText ''a'', CText ''b'', CText ''c''])] \<and>
   force_numeric example_parse
     [(''id'', NumericCol [Some 1, None]), (''v'', ObjectCol [CText ''10'', CText ''abc''])] ! 1 =
     (''v'', NumericCol [Some 10, None])"
proof -
  have p10: "example_parse (CText ''10'') = Some 10"
    and p20: "example_parse (CText ''20'') = Some 20"
    and p30: "example_parse (CText ''30'') = Some 30"
    and pa: "example_parse (CText ''a'') = None"
    and pb: "example_parse (CText ''b'') = None"
    and pc: "example_parse (CText ''c'') = None"
    and pabc: "example_parse (CText ''abc'') = None"
    by (simp_all add: example_parse_def)
  note rule = force_numeric_column_rule [where parse = example_parse]
  have a: "force_numeric example_parse
     [(''amount'', ObjectCol [CText ''10'', CText ''20'', CText ''30''])] =
     [(''amount'', NumericCol [Some 10, Some 20, Some 30])]"
    using rule [where cname = "''amount''" and df = "[]" and i = 0 and vs = "[]" and ns = "[]"]
      p10 p20 p30 by blast
  have b: "force_numeric example_parse
     [(''name'', ObjectCol [CText ''a'', CText ''b'', CText ''c''])] =
     [(''name'', ObjectCol [CText ''a'', CText ''b'', CText ''c''])]"
    using rule [where cname = "''name''" and df = "[]" and i = 0 and vs = "[]" and ns = "[]"]
      pa pb pc by blast
  let ?df = "[(''id'', NumericCol [Some 1, None]), (''v'', ObjectCol [CText ''10'', CText ''abc''])]"
  have i: "1 < length ?df" by simp
  have n: "?df ! 1 = (''v'', ObjectCol [CText ''10'', CText ''abc''])" by simp
  have e: "\<exists>v\<in>set [CText ''10'', CText ''abc'']. example_parse v \<noteq> None"
    using p10 by simp
  have "force_numeric example_parse ?df ! 1 =
      (''v'', if \<exists>v\<in>set [CText ''10'', CText ''abc'']. example_parse v \<noteq> None
              then NumericCol (map example_parse [CText ''10'', CText ''abc''])
              else ObjectCol [CText ''10'', CText ''abc''])"
    using rule [where cname = "''v''" and df = ?df and i = 1
        and vs = "[CText ''10'', CText ''abc'']" and ns = "[]"] i n
    by blast
  then have c: "force_numeric example_parse ?df ! 1 = (''v'', NumericCol [Some 10, None])"
    unfolding if_P [OF e] by (simp add: p10 pabc)
  from a b c show ?thesis by blast
qed

section \<open>Insights\<close>

text \<open>
  C8. On an empty table \<open>generate_insights\<close> returns the fixed message and leaves the
  service as it was, without a call; a call is counted only for a non-empty table, and
  then exactly one.
\<close>

theorem generate_insights_empty:
  "(df_empty df \<longrightarrow>
      generate_insights insights_prompt m df question sql =
        (''No data found for this query.'', m)) \<and>
   (ncalls (snd (generate_insights insights_prompt m df question sql)) \<noteq> ncalls m \<longrightarrow>
      \<not> df_empty df) \<and>
   (\<not> df_empty df \<longrightarrow>
      ncalls (snd (generate_insights insights_prompt m df question sql)) = Suc (ncalls m))"
  by (auto simp: generate_insights_def generate_content_def split: sum.splits)

theorem generate_insights_empty_witness:
  "df_empty [] \<and>
   generate_insights example_insights_prompt prose_model [] ''q'' ''SELECT 1'' =
     (''No data found for this query.'', prose_model) \<and>
   df_empty [(''a'', ObjectCol [])] \<and>
   generate_insights example_insights_prompt prose_model [(''a'', ObjectCol [])] ''q'' ''SELECT 1'' =
     (''No data found for this query.'', prose_model) \<and>
   \<not> df_empty [(''a'', NumericCol [Some 1])] \<and>
   ncalls (snd (generate_insights example_insights_prompt prose_model
                  [(''a'', NumericCol [Some 1])] ''q'' ''SELECT 1'')) = Suc (ncalls prose_model)"
proof -
  have e1: "df_empty []"
    by (simp add: df_empty_def)
  have e2: "df_empty [(''a'', ObjectCol [])]"
    by (simp add: df_empty_def nrows_def)
  have e3: "\<not> df_empty [(''a'', NumericCol [Some 1])]"
    by (simp add: df_empty_def nrows_def)
  note r = generate_insights_empty [where insights_prompt = example_insights_prompt
      and m = prose_model and question = "''q''" and sql = "''SELECT 1''"]
  have a: "generate_insights example_insights_prompt prose_model [] ''q'' ''SELECT 1'' =
     (''No data found for this query.'', prose_model)"
    using r [where df = "[]"] e1 by blast
  have b: "generate_insights example_insights_prompt prose_model [(''a'', ObjectCol [])]
      ''q'' ''SELECT 1'' = (''No data found for this query.'', prose_model)"
    using r [where df = "[(''a'', ObjectCol [])]"] e2 by blast
  have c: "ncalls (snd (generate_insights example_insights_prompt prose_model
                  [(''a'', NumericCol [Some 1])] ''q'' ''SELECT 1'')) = Suc (ncalls prose_model)"
    using r [where df = "[(''a'', NumericCol [Some 1])]"] e3 by blast
  from e1 a e2 b e3 c show ?thesis
    by (intro conjI)
qed

section \<open>Chart specification\<close>

text \<open>
  C9. When the call of the service raises, or when \<open>json.loads\<close> raises on the cleaned
  response, \<open>generate_chart_spec\<close> returns the table fallback with null axes and the title
  \<open>Data Preview\<close>; and whatever happens the service has been called exactly once.
\<close>

theorem generate_chart_spec_fallback:
  "(reply m (ncalls m) (chart_prompt df question) None = Inl e \<longrightarrow>
      fst (generate_chart_spec chart_prompt json_loads m df question) =
        JObject [(''chart'', JString ''table''), (''x'', JNull), (''y'', JNull),
                 (''title'', JString ''Data Preview'')]) \<and>
   (reply m (ncalls m) (chart_prompt df question) None = Inr resp \<longrightarrow>
    json_loads (strip (remove_fences (strip resp))) = Inl e' \<longrightarrow>
      fst (generate_chart_spec chart_prompt json_loads m df question) =
        JObject [(''chart'', JString ''table''), (''x'', JNull), (''y'', JNull),
                 (''title'', JString ''Data Preview'')]) \<and>
   ncalls (snd (generate_chart_spec chart_prompt json_loads m df question)) = Suc (ncalls m)"
  by (auto simp: generate_chart_spec_def generate_content_def Let_def split: sum.splits)

theorem generate_chart_spec_fallback_witness:
  "fst (generate_chart_spec example_chart_prompt example_json_loads failing_model
          [(''a'', NumericCol [Some 1])] ''q'') =
     JObject [(''chart'', JString ''table''), (''x'', JNull), (''y'', JNull),
              (''title'', JString ''Data Preview'')] \<and>
   fst (generate_chart_spec example_chart_prompt example_json_loads prose_model
          [(''a'', NumericCol [Some 1])] ''q'') =
     JObject [(''chart'', JString ''table''), (''x'', JNull), (''y'', JNull),
              (''title'', JString ''Data Preview'')] \<and>
   ncalls (snd (generate_chart_spec example_chart_prompt example_json_loads prose_model
                  [(''a'', NumericCol [Some 1])] ''q'')) = Suc (ncalls prose_model)"
proof -
  have f: "reply failing_model (ncalls failing_model)
             (example_chart_prompt [(''a'', NumericCol [Some 1])] ''q'') None =
           Inl (Raise ModelError ''service unavailable'')"
    by (simp add: failing_model_def)
  have r: "reply prose_model (ncalls prose_model)
             (example_chart_prompt [(''a'', NumericCol [Some 1])] ''q'') None =
           Inr '' A bar chart would suit this. ''"
    by (simp add: prose_model_def)
  have c: "strip (remove_fences (strip '' A bar chart would suit this. '')) =
           ''A bar chart would suit this.''"
    by code_simp
  have j: "example_json_loads (strip (remove_fences (strip '' A bar chart would suit this. ''))) =
           Inl (Raise JSONDecodeError ''Expecting value'')"
    unfolding c by (simp add: example_json_loads_def)
  note g = generate_chart_spec_fallback [where chart_prompt = example_chart_prompt
      and json_loads = example_json_loads and df = "[(''a'', NumericCol [Some 1])]"
      and question = "''q''"]
  have a: "fst (generate_chart_spec example_chart_prompt example_json_loads failing_model
          [(''a'', NumericCol [Some 1])] ''q'') =
     JObject [(''chart'', JString ''table''), (''x'', JNull), (''y'', JNull),
              (''title'', JString ''Data Preview'')]"
    using g [where m = failing_model and e = "Raise ModelError ''service unavailable''"] f
    by blast
  have b: "fst (generate_chart_spec example_chart_prompt example_json_loads prose_model
          [(''a'', NumericCol [Some 1])] ''q'') =
     JObject [(''chart'', JString ''table''), (''x'', JNull), (''y'', JNull),
              (''title'', JString ''Data Preview'')]"
    using g [where m = prose_model and resp = "'' A bar chart would suit this. ''"
        and e' = "Raise JSONDecodeError ''Expecting value''"] r j
    by blast
  have n: "ncalls (snd (generate_chart_spec example_chart_prompt example_json_loads prose_model
                  [(''a'', NumericCol [Some 1])] ''q'')) = Suc (ncalls prose_model)"
    using g [where m = prose_model] by blast
  from a b n show ?thesis
    by (intro conjI)
qed

section \<open>Schema introspection\<close>

lemma get_schema_detailed_returns:
  "\<exists>schema. get_schema_detailed parse int_of_str st = Inr schema"
  by (simp add: get_schema_detailed_def split: sum.splits)

lemma get_schema_detailed_metadata_fails:
  "metadata st = Inl e \<Longrightarrow> get_schema_detailed parse int_of_str st = Inr []"
  by (simp add: get_schema_detailed_def schema_body_def)

lemma get_schema_detailed_no_rows:
  "metadata st = Inr [] \<Longrightarrow> get_schema_detailed parse int_of_str st = Inr []"
  by (simp add: get_schema_detailed_def schema_body_def)

text \<open>
  C6, as the claim states it, fails: with an unreachable store \<open>get_schema_detailed\<close>
  raises nothing and returns the empty schema, the value it also returns for a store
  without tables.
\<close>

theorem unreachable_store_looks_empty_counterexample:
  "metadata unreachable_store = Inl (Raise StoreError ''connection refused'') \<and>
   get_schema_detailed example_parse example_int_of_str unreachable_store = Inr [] \<and>
   metadata no_tables_store = Inr [] \<and>
   get_schema_detailed example_parse example_int_of_str no_tables_store = Inr []"
  by (simp add: get_schema_detailed_def schema_body_def unreachable_store_def
      no_tables_store_def)

text \<open>
  C6, amended: \<open>get_schema_detailed\<close> never fails. When the catalog query fails or the
  store cannot be reached, the exception is caught and the empty schema is returned as an
  ordinary result, the same value as for a store with no tables; the returned value does
  not tell the two apart.
\<close>

theorem get_schema_detailed_never_fails:
  "(\<exists>schema. get_schema_detailed parse int_of_str st = Inr schema) \<and>
   (metadata st = Inl e \<longrightarrow> get_schema_detailed parse int_of_str st = Inr []) \<and>
   (metadata st = Inr [] \<longrightarrow> get_schema_detailed parse int_of_str st = Inr [])"
  using get_schema_detailed_returns get_schema_detailed_metadata_fails
    get_schema_detailed_no_rows
  by blast

theorem get_schema_detailed_never_fails_witness:
  "get_schema_detailed example_parse example_int_of_str unreachable_store = Inr [] \<and>
   get_schema_detailed example_parse example_int_of_str no_tables_store = Inr [] \<and>
   get_schema_detailed example_parse example_int_of_str pnl_store =
     Inr [(''pnl'',
           \<lparr>columns = [\<lparr>ci_name = ''Revenue'', ci_type = ''int'', ci_full_type = ''int(11)''\<rparr>],
            sample_data = None, row_count = 2\<rparr>)]"
proof -
  have u: "metadata unreachable_store = Inl (Raise StoreError ''connection refused'')"
    by (simp add: unreachable_store_def)
  have n: "metadata no_tables_store = Inr []"
    by (simp add: no_tables_store_def)
  note r = get_schema_detailed_never_fails [where parse = example_parse
      and int_of_str = example_int_of_str]
  have a: "get_schema_detailed example_parse example_int_of_str unreachable_store = Inr []"
    using r [where st = unreachable_store and e = "Raise StoreError ''connection refused''"] u
    by blast
  have b: "get_schema_detailed example_parse example_int_of_str no_tables_store = Inr []"
    using r [where st = no_tables_store] n by blast
  have c: "get_schema_detailed example_parse example_int_of_str pnl_store =
     Inr [(''pnl'',
           \<lparr>columns = [\<lparr>ci_name = ''Revenue'', ci_type = ''int'', ci_full_type = ''int(11)''\<rparr>],
            sample_data = None, row_count = 2\<rparr>)]"
    by (simp add: get_schema_detailed_def schema_body_def pnl_store_def table_stats_def
        fetch_df_def getitem_def count_of_def df_empty_def nrows_def py_int_rat_def)
  from a b c show ?thesis
    by (intro conjI)
qed

end
